theory Spec2Isabelle
  imports Main "HOL-Library.AList"
begin

section \<open>The local service of zenml/core/local\_service.py\<close>

text \<open>
  \<^verbatim>\<open>LocalService\<close> keeps three dictionaries from a key to a component: \<^verbatim>\<open>providers\<close>
  holds the provider objects themselves, \<^verbatim>\<open>metadata_store_map\<close> and
  \<^verbatim>\<open>artifact_store_map\<close> hold a \<^verbatim>\<open>UUIDSourceTuple\<close> per key. A fourth dictionary,
  \<^verbatim>\<open>orchestrator_map\<close>, is declared and never written. Every method is embedded as a
  function from the state before the call to the outcome and the state after it; an
  exception is the outcome \<open>Inl\<close>.
\<close>

subsection \<open>Python dictionaries\<close>

text \<open>
  A \<^verbatim>\<open>dict\<close> keeps its keys in insertion order, and that order is what \<^verbatim>\<open>keys()\<close> and
  \<^verbatim>\<open>values()\<close> iterate over, so a dictionary is an association list. \<^verbatim>\<open>d[k] = v\<close> replaces
  the value of a key that is there and appends a new key at the end; \<^verbatim>\<open>d[k]\<close> and
  \<^verbatim>\<open>del d[k]\<close> raise \<^verbatim>\<open>KeyError\<close> on a key that is not there.
\<close>

type_synonym key = string

type_synonym 'v dict = "(key \<times> 'v) list"

datatype error =
    DoesNotExistException key "key list"
  | AlreadyExistsException string
  | KeyError key
  | CollaboratorError string

text \<open>
  \<^verbatim>\<open>DoesNotExistException\<close> is raised with the message
  \<^verbatim>\<open>Provider of key `{key}` does not exist. Available keys: {d.keys()}\<close>; the two values
  the message interpolates are the constructor's arguments. \<^verbatim>\<open>AlreadyExistsException\<close>
  carries its message. \<open>CollaboratorError\<close> stands for an exception that a collaborator
  raises; the source has no \<^verbatim>\<open>try\<close>, so such an exception leaves the method as it is.
\<close>

definition keys :: "'v dict \<Rightarrow> key list" where
  "keys d = map fst d"

definition contains :: "key \<Rightarrow> 'v dict \<Rightarrow> bool" where
  "contains k d = (k \<in> set (keys d))"

definition getitem :: "'v dict \<Rightarrow> key \<Rightarrow> error + 'v" where
  "getitem d k = (case map_of d k of None \<Rightarrow> Inl (KeyError k) | Some v \<Rightarrow> Inr v)"

definition setitem :: "'v dict \<Rightarrow> key \<Rightarrow> 'v \<Rightarrow> 'v dict" where
  "setitem d k v = AList.update k v d"

definition delitem :: "'v dict \<Rightarrow> key \<Rightarrow> error + 'v dict" where
  "delitem d k = (if contains k d then Inr (AList.delete k d) else Inl (KeyError k))"

definition values_of :: "'v dict \<Rightarrow> 'v list" where
  "values_of d = map snd d"

subsection \<open>Components and references\<close>

text \<open>
  An artifact store or a metadata store is known to the service by two things: its
  \<^verbatim>\<open>uuid\<close> and the source locator of its class, the string that
  \<^verbatim>\<open>source_utils.resolve_class(x.__class__)\<close> returns. Its other fields are read by
  the logger call alone, through \<^verbatim>\<open>dict()\<close>, and are not part of the model. A provider is
  stored as it is, so its type is left open.
\<close>

record component =
  component_uuid :: nat
  component_source :: string

record uuid_source_tuple =
  uuid :: nat
  source :: string

record 'p local_service =
  providers :: "'p dict"
  metadata_store_map :: "uuid_source_tuple dict"
  artifact_store_map :: "uuid_source_tuple dict"
  orchestrator_map :: "uuid_source_tuple dict"

subsection \<open>Effects outside the service object\<close>

text \<open>
  What a method does beyond reading and writing the dictionaries is a call on a
  collaborator: the logger, \<^verbatim>\<open>update()\<close> or \<^verbatim>\<open>delete()\<close> of a component, and
  \<^verbatim>\<open>update()\<close> or \<^verbatim>\<open>delete()\<close> that the service inherits from \<^verbatim>\<open>BaseComponent\<close>. The
  calls are recorded in the order they are made. A logger event keeps the key that the
  message interpolates; \<open>Service_update\<close> keeps the dictionaries as they are when
  \<^verbatim>\<open>self.update()\<close> is called, which is what that call serialises.
\<close>

datatype 'p event =
    Logger_debug key
  | Logger_info key
  | Component_update component
  | Component_delete component
  | Service_update "'p local_service"
  | Service_delete

record 'p world =
  service :: "'p local_service"
  effects :: "'p event list"

definition emit :: "'p event \<Rightarrow> 'p world \<Rightarrow> 'p world" where
  "emit e w = w\<lparr>effects := effects w @ [e]\<rparr>"

definition update :: "'p world \<Rightarrow> 'p world" where
  "update w = emit (Service_update (service w)) w"

text \<open>
  Modelled from the spec: \<^verbatim>\<open>mapping_utils.get_component_from_key\<close> is not among the
  sources. The spec has it reconstruct a live component from the stored reference, the
  instance identifier and the source locator, with no presence check of its own; the
  lookup \<^verbatim>\<open>mapping[key]\<close> is Python's.
\<close>

definition component_of :: "uuid_source_tuple \<Rightarrow> component" where
  "component_of t = \<lparr>component_uuid = uuid t, component_source = source t\<rparr>"

definition get_component_from_key :: "key \<Rightarrow> uuid_source_tuple dict \<Rightarrow> error + component" where
  "get_component_from_key k mapping =
     (case getitem mapping k of Inl e \<Rightarrow> Inl e | Inr t \<Rightarrow> Inr (component_of t))"

text \<open>
  Modelled from the spec: \<^verbatim>\<open>mapping_utils.get_components_from_store\<close> is not among the
  sources. The spec has it produce exactly one reconstructed instance per stored
  reference, under the same key. The spec leaves the order of the result open; the model
  keeps the order of the mapping. The directory name passed first in the source does not
  appear in the spec's description and is left out.
\<close>

definition get_components_from_store :: "uuid_source_tuple dict \<Rightarrow> component dict" where
  "get_components_from_store mapping = map (\<lambda>(k, t). (k, component_of t)) mapping"

definition metadata_stores :: "'p local_service \<Rightarrow> component dict" where
  "metadata_stores s = get_components_from_store (metadata_store_map s)"

definition artifact_stores :: "'p local_service \<Rightarrow> component dict" where
  "artifact_stores s = get_components_from_store (artifact_store_map s)"

definition orchestrators :: "'p local_service \<Rightarrow> string dict" where
  "orchestrators s = []"

subsection \<open>Providers\<close>

definition get_provider :: "key \<Rightarrow> 'p world \<Rightarrow> (error + 'p) \<times> 'p world" where
  "get_provider k w =
     (let w1 = emit (Logger_debug k) w in
      if \<not> contains k (providers (service w1))
      then (Inl (DoesNotExistException k (keys (providers (service w1)))), w1)
      else (getitem (providers (service w1)) k, w1))"

definition register_provider :: "key \<Rightarrow> 'p \<Rightarrow> 'p world \<Rightarrow> (error + unit) \<times> 'p world" where
  "register_provider k provider w =
     (let w1 = emit (Logger_info k) w in
      if contains k (providers (service w1))
      then (Inl (AlreadyExistsException (''Provider `'' @ k @ ''` already exists!'')), w1)
      else
        let s = service w1;
            w2 = w1\<lparr>service := s\<lparr>providers := setitem (providers s) k provider\<rparr>\<rparr>
        in (Inr (), update w2))"

definition delete_provider :: "key \<Rightarrow> 'p world \<Rightarrow> (error + unit) \<times> 'p world" where
  "delete_provider k w =
     (case get_provider k w of
        (Inl e, w1) \<Rightarrow> (Inl e, w1)
      | (Inr _, w1) \<Rightarrow>
          (case delitem (providers (service w1)) k of
             Inl e \<Rightarrow> (Inl e, w1)
           | Inr d \<Rightarrow>
               let s = service w1;
                   w2 = w1\<lparr>service := s\<lparr>providers := d\<rparr>\<rparr>
               in (Inr (), emit (Logger_info k) (update w2))))"

subsection \<open>Artifact stores\<close>

definition get_artifact_store :: "key \<Rightarrow> 'p world \<Rightarrow> (error + component) \<times> 'p world" where
  "get_artifact_store k w =
     (let w1 = emit (Logger_debug k) w in
      if \<not> contains k (artifact_store_map (service w1))
      then (Inl (DoesNotExistException k (keys (artifact_store_map (service w1)))), w1)
      else (get_component_from_key k (artifact_store_map (service w1)), w1))"

definition register_artifact_store ::
  "key \<Rightarrow> component \<Rightarrow> 'p world \<Rightarrow> (error + unit) \<times> 'p world" where
  "register_artifact_store k artifact_store w =
     (let w1 = emit (Logger_info k) w in
      if contains k (artifact_store_map (service w1))
      then (Inl (AlreadyExistsException (''Artifact Store `'' @ k @ ''` already exists!'')), w1)
      else
        let w2 = emit (Component_update artifact_store) w1;
            src = component_source artifact_store;
            s = service w2;
            w3 = w2\<lparr>service := s\<lparr>artifact_store_map :=
                   setitem (artifact_store_map s) k
                     \<lparr>uuid = component_uuid artifact_store, source = src\<rparr>\<rparr>\<rparr>
        in (Inr (), update w3))"

definition delete_artifact_store :: "key \<Rightarrow> 'p world \<Rightarrow> (error + unit) \<times> 'p world" where
  "delete_artifact_store k w =
     (case get_artifact_store k w of
        (Inl e, w1) \<Rightarrow> (Inl e, w1)
      | (Inr c, w1) \<Rightarrow>
          let w2 = emit (Component_delete c) w1 in
          (case delitem (artifact_store_map (service w2)) k of
             Inl e \<Rightarrow> (Inl e, w2)
           | Inr d \<Rightarrow>
               let s = service w2;
                   w3 = w2\<lparr>service := s\<lparr>artifact_store_map := d\<rparr>\<rparr>
               in (Inr (), emit (Logger_info k) (update w3))))"

subsection \<open>Metadata stores\<close>

definition get_metadata_store :: "key \<Rightarrow> 'p world \<Rightarrow> (error + component) \<times> 'p world" where
  "get_metadata_store k w =
     (let w1 = emit (Logger_debug k) w in
      if \<not> contains k (metadata_store_map (service w1))
      then (Inl (DoesNotExistException k (keys (metadata_store_map (service w1)))), w1)
      else (get_component_from_key k (metadata_store_map (service w1)), w1))"

definition register_metadata_store ::
  "key \<Rightarrow> component \<Rightarrow> 'p world \<Rightarrow> (error + unit) \<times> 'p world" where
  "register_metadata_store k metadata_store w =
     (let w1 = emit (Logger_info k) w in
      if contains k (metadata_store_map (service w1))
      then (Inl (AlreadyExistsException (''Artifact Store `'' @ k @ ''` already exists!'')), w1)
      else
        let w2 = emit (Component_update metadata_store) w1;
            src = component_source metadata_store;
            s = service w2;
            w3 = w2\<lparr>service := s\<lparr>metadata_store_map :=
                   setitem (metadata_store_map s) k
                     \<lparr>uuid = component_uuid metadata_store, source = src\<rparr>\<rparr>\<rparr>
        in (Inr (), update w3))"

definition delete_metadata_store :: "key \<Rightarrow> 'p world \<Rightarrow> (error + unit) \<times> 'p world" where
  "delete_metadata_store k w =
     (case get_metadata_store k w of
        (Inl e, w1) \<Rightarrow> (Inl e, w1)
      | (Inr c, w1) \<Rightarrow>
          let w2 = emit (Component_delete c) w1 in
          (case delitem (metadata_store_map (service w2)) k of
             Inl e \<Rightarrow> (Inl e, w2)
           | Inr d \<Rightarrow>
               let s = service w2;
                   w3 = w2\<lparr>service := s\<lparr>metadata_store_map := d\<rparr>\<rparr>
               in (Inr (), emit (Logger_info k) (update w3))))"

subsection \<open>Deleting the whole service\<close>

text \<open>
  The two \<^verbatim>\<open>for\<close> loops call \<^verbatim>\<open>delete()\<close> on each value of \<^verbatim>\<open>self.metadata_stores\<close> and
  then of \<^verbatim>\<open>self.artifact_stores\<close>; the loop over the orchestrators is commented out in
  the source. \<^verbatim>\<open>super().delete()\<close> ends the method. No statement of the method assigns
  to a dictionary.
\<close>

definition delete_each :: "component list \<Rightarrow> 'p world \<Rightarrow> 'p world" where
  "delete_each cs w = fold (\<lambda>c. emit (Component_delete c)) cs w"

definition delete :: "'p world \<Rightarrow> (error + unit) \<times> 'p world" where
  "delete w =
     (let w1 = delete_each (values_of (metadata_stores (service w))) w;
          w2 = delete_each (values_of (artifact_stores (service w1))) w1
      in (Inr (), emit Service_delete w2))"

subsection \<open>What the recorded calls do to the files\<close>

text \<open>
  Modelled from the spec: \<^verbatim>\<open>BaseComponent\<close>, whose \<^verbatim>\<open>update()\<close> and \<^verbatim>\<open>delete()\<close> the
  service and its components use, is not among the sources. The spec has \<^verbatim>\<open>update()\<close>
  persist the object's own state and \<^verbatim>\<open>delete()\<close> destroy it.
\<close>

record 'p storage =
  component_files :: "component set"
  service_file :: "'p local_service option"

definition empty_service :: "'p local_service" where
  "empty_service =
     \<lparr>providers = [], metadata_store_map = [], artifact_store_map = [], orchestrator_map = []\<rparr>"

fun apply_event :: "'p event \<Rightarrow> 'p storage \<Rightarrow> 'p storage" where
  "apply_event (Logger_debug _) st = st"
| "apply_event (Logger_info _) st = st"
| "apply_event (Component_update c) st = st\<lparr>component_files := insert c (component_files st)\<rparr>"
| "apply_event (Component_delete c) st = st\<lparr>component_files := component_files st - {c}\<rparr>"
| "apply_event (Service_update s) st = st\<lparr>service_file := Some s\<rparr>"
| "apply_event Service_delete st = st\<lparr>service_file := None\<rparr>"

definition storage_after :: "'p event list \<Rightarrow> 'p storage \<Rightarrow> 'p storage" where
  "storage_after es st = fold apply_event es st"

subsection \<open>Concrete registries\<close>

text \<open>
  A service that has just been created with no persisted file to read, and the registries
  that the theorems below are run on: one with the key \<open>store1\<close> in all three
  dictionaries, and one built by registering a metadata store under \<open>m1\<close> and an artifact
  store under \<open>a1\<close>.
\<close>

definition new_world :: "'p world" where
  "new_world = \<lparr>service = empty_service, effects = []\<rparr>"

definition artifact_store_A :: component where
  "artifact_store_A =
     \<lparr>component_uuid = 1,
      component_source = ''zenml.artifact_stores.local_artifact_store.LocalArtifactStore''\<rparr>"

definition artifact_store_B :: component where
  "artifact_store_B =
     \<lparr>component_uuid = 2,
      component_source = ''zenml.artifact_stores.gcp_artifact_store.GCPArtifactStore''\<rparr>"

definition metadata_store_M :: component where
  "metadata_store_M =
     \<lparr>component_uuid = 3,
      component_source = ''zenml.metadata.sqlite_metadata_wrapper.SQLiteMetadataStore''\<rparr>"

definition store1_world :: "string world" where
  "store1_world =
     snd (register_metadata_store ''store1'' metadata_store_M
       (snd (register_artifact_store ''store1'' artifact_store_A
         (snd (register_provider ''store1'' ''local'' new_world)))))"


subsection \<open>Collaborators that raise\<close>

text \<open>
  No method of the source catches an exception, so when \<^verbatim>\<open>update()\<close> or \<^verbatim>\<open>delete()\<close> of a
  component, or \<^verbatim>\<open>update()\<close> of the service, raises, the method ends at that statement with
  that exception and the statements after it are not run. Which calls raise, and what, is
  given by \<open>raising\<close>. A call that raises is not recorded among the effects. The methods
  that write a dictionary are embedded a second time with the calls made through \<open>call\<close>;
  when nothing raises they are the functions above.
\<close>

type_synonym 'p raising = "'p event \<Rightarrow> error option"

definition call :: "'p raising \<Rightarrow> 'p event \<Rightarrow> 'p world \<Rightarrow> (error + unit) \<times> 'p world" where
  "call raising e w = (case raising e of Some err \<Rightarrow> (Inl err, w) | None \<Rightarrow> (Inr (), emit e w))"

definition update_env :: "'p raising \<Rightarrow> 'p world \<Rightarrow> (error + unit) \<times> 'p world" where
  "update_env raising w = call raising (Service_update (service w)) w"

definition register_provider_env ::
  "'p raising \<Rightarrow> key \<Rightarrow> 'p \<Rightarrow> 'p world \<Rightarrow> (error + unit) \<times> 'p world" where
  "register_provider_env raising k provider w =
     (let w1 = emit (Logger_info k) w in
      if contains k (providers (service w1))
      then (Inl (AlreadyExistsException (''Provider `'' @ k @ ''` already exists!'')), w1)
      else
        let s = service w1;
            w2 = w1\<lparr>service := s\<lparr>providers := setitem (providers s) k provider\<rparr>\<rparr>
        in update_env raising w2)"

definition delete_provider_env ::
  "'p raising \<Rightarrow> key \<Rightarrow> 'p world \<Rightarrow> (error + unit) \<times> 'p world" where
  "delete_provider_env raising k w =
     (case get_provider k w of
        (Inl e, w1) \<Rightarrow> (Inl e, w1)
      | (Inr _, w1) \<Rightarrow>
          (case delitem (providers (service w1)) k of
             Inl e \<Rightarrow> (Inl e, w1)
           | Inr d \<Rightarrow>
               let s = service w1;
                   w2 = w1\<lparr>service := s\<lparr>providers := d\<rparr>\<rparr>
               in (case update_env raising w2 of
                     (Inl e, w3) \<Rightarrow> (Inl e, w3)
                   | (Inr _, w3) \<Rightarrow> (Inr (), emit (Logger_info k) w3))))"

definition register_artifact_store_env ::
  "'p raising \<Rightarrow> key \<Rightarrow> component \<Rightarrow> 'p world \<Rightarrow> (error + unit) \<times> 'p world" where
  "register_artifact_store_env raising k artifact_store w =
     (let w1 = emit (Logger_info k) w in
      if contains k (artifact_store_map (service w1))
      then (Inl (AlreadyExistsException (''Artifact Store `'' @ k @ ''` already exists!'')), w1)
      else
        (case call raising (Component_update artifact_store) w1 of
           (Inl e, w2) \<Rightarrow> (Inl e, w2)
         | (Inr _, w2) \<Rightarrow>
             let src = component_source artifact_store;
                 s = service w2;
                 w3 = w2\<lparr>service := s\<lparr>artifact_store_map :=
                        setitem (artifact_store_map s) k
                          \<lparr>uuid = component_uuid artifact_store, source = src\<rparr>\<rparr>\<rparr>
             in update_env raising w3))"

definition delete_artifact_store_env ::
  "'p raising \<Rightarrow> key \<Rightarrow> 'p world \<Rightarrow> (error + unit) \<times> 'p world" where
  "delete_artifact_store_env raising k w =
     (case get_artifact_store k w of
        (Inl e, w1) \<Rightarrow> (Inl e, w1)
      | (Inr c, w1) \<Rightarrow>
          (case call raising (Component_delete c) w1 of
             (Inl e, w2) \<Rightarrow> (Inl e, w2)
           | (Inr _, w2) \<Rightarrow>
               (case delitem (artifact_store_map (service w2)) k of
                  Inl e \<Rightarrow> (Inl e, w2)
                | Inr d \<Rightarrow>
                    let s = service w2;
                        w3 = w2\<lparr>service := s\<lparr>artifact_store_map := d\<rparr>\<rparr>
                    in (case update_env raising w3 of
                          (Inl e, w4) \<Rightarrow> (Inl e, w4)
                        | (Inr _, w4) \<Rightarrow> (Inr (), emit (Logger_info k) w4)))))"

definition register_metadata_store_env ::
  "'p raising \<Rightarrow> key \<Rightarrow> component \<Rightarrow> 'p world \<Rightarrow> (error + unit) \<times> 'p world" where
  "register_metadata_store_env raising k metadata_store w =
     (let w1 = emit (Logger_info k) w in
      if contains k (metadata_store_map (service w1))
      then (Inl (AlreadyExistsException (''Artifact Store `'' @ k @ ''` already exists!'')), w1)
      else
        (case call raising (Component_update metadata_store) w1 of
           (Inl e, w2) \<Rightarrow> (Inl e, w2)
         | (Inr _, w2) \<Rightarrow>
             let src = component_source metadata_store;
                 s = service w2;
                 w3 = w2\<lparr>service := s\<lparr>metadata_store_map :=
                        setitem (metadata_store_map s) k
                          \<lparr>uuid = component_uuid metadata_store, source = src\<rparr>\<rparr>\<rparr>
             in update_env raising w3))"

definition delete_metadata_store_env ::
  "'p raising \<Rightarrow> key \<Rightarrow> 'p world \<Rightarrow> (error + unit) \<times> 'p world" where
  "delete_metadata_store_env raising k w =
     (case get_metadata_store k w of
        (Inl e, w1) \<Rightarrow> (Inl e, w1)
      | (Inr c, w1) \<Rightarrow>
          (case call raising (Component_delete c) w1 of
             (Inl e, w2) \<Rightarrow> (Inl e, w2)
           | (Inr _, w2) \<Rightarrow>
               (case delitem (metadata_store_map (service w2)) k of
                  Inl e \<Rightarrow> (Inl e, w2)
                | Inr d \<Rightarrow>
                    let s = service w2;
                        w3 = w2\<lparr>service := s\<lparr>metadata_store_map := d\<rparr>\<rparr>
                    in (case update_env raising w3 of
                          (Inl e, w4) \<Rightarrow> (Inl e, w4)
                        | (Inr _, w4) \<Rightarrow> (Inr (), emit (Logger_info k) w4)))))"

text \<open>Three ways for the collaborators to behave, for running the methods.\<close>

definition nothing_raises :: "'p raising" where
  "nothing_raises = (\<lambda>e. None)"

definition component_calls_raise :: "'p raising" where
  "component_calls_raise =
     (\<lambda>e. case e of
        Component_update c \<Rightarrow> Some (CollaboratorError ''update'')
      | Component_delete c \<Rightarrow> Some (CollaboratorError ''delete'')
      | _ \<Rightarrow> None)"

definition service_update_raises :: "'p raising" where
  "service_update_raises =
     (\<lambda>e. case e of Service_update s \<Rightarrow> Some (CollaboratorError ''update'') | _ \<Rightarrow> None)"

subsection \<open>Reading through a resolver\<close>






section \<open>Properties\<close>

subsection \<open>Dictionaries and recorded calls\<close>

lemma contains_map_of: "contains k d \<longleftrightarrow> map_of d k \<noteq> None"
  by (simp add: contains_def keys_def map_of_eq_None_iff)

lemma contains_Some: "map_of d k = Some v \<Longrightarrow> contains k d"
  by (simp add: contains_map_of)

lemma getitem_Some: "map_of d k = Some v \<Longrightarrow> getitem d k = Inr v"
  by (simp add: getitem_def)

lemma get_component_Some:
  "map_of d k = Some t \<Longrightarrow> get_component_from_key k d = Inr (component_of t)"
  by (simp add: get_component_from_key_def getitem_def)

lemma not_contains_delete: "\<not> contains k (AList.delete k d)"
  using delete_notin_dom [of k d] by (simp add: contains_def keys_def)

lemma contains_setitem: "contains k (setitem d k v)"
  by (simp add: contains_map_of setitem_def update_conv')

lemma map_of_setitem: "map_of (setitem d k v) k = Some v"
  by (simp add: setitem_def update_conv')

lemma setitem_fresh: "\<not> contains k d \<Longrightarrow> setitem d k v = d @ [(k, v)]"
  unfolding setitem_def contains_def keys_def
  by (induction d) auto

lemma service_emit [simp]: "service (emit e w) = service w"
  by (simp add: emit_def)

lemma effects_emit [simp]: "effects (emit e w) = effects w @ [e]"
  by (simp add: emit_def)

lemma service_update [simp]: "service (update w) = service w"
  by (simp add: update_def)

lemma effects_update [simp]: "effects (update w) = effects w @ [Service_update (service w)]"
  by (simp add: update_def)

lemma service_delete_each [simp]: "service (delete_each cs w) = service w"
  unfolding delete_each_def by (induction cs arbitrary: w) simp_all

lemma effects_delete_each [simp]:
  "effects (delete_each cs w) = effects w @ map Component_delete cs"
  unfolding delete_each_def by (induction cs arbitrary: w) simp_all

lemma storage_after_snoc: "storage_after (es @ [e]) st = apply_event e (storage_after es st)"
  by (simp add: storage_after_def)

subsection \<open>The concrete registries, evaluated\<close>

lemma new_world_service:
  "service (new_world :: 'p world) =
     \<lparr>providers = [], metadata_store_map = [], artifact_store_map = [], orchestrator_map = []\<rparr>"
  by (simp add: new_world_def empty_service_def)

lemma store1_world_service:
  "service store1_world =
     \<lparr>providers = [(''store1'', ''local'')],
      metadata_store_map = [(''store1'', \<lparr>uuid = 3,
        source = ''zenml.metadata.sqlite_metadata_wrapper.SQLiteMetadataStore''\<rparr>)],
      artifact_store_map = [(''store1'', \<lparr>uuid = 1,
        source = ''zenml.artifact_stores.local_artifact_store.LocalArtifactStore''\<rparr>)],
      orchestrator_map = []\<rparr>"
  by (simp add: store1_world_def new_world_def empty_service_def register_provider_def
      register_artifact_store_def register_metadata_store_def Let_def contains_def keys_def
      setitem_def artifact_store_A_def metadata_store_M_def)



subsection \<open>Registering a key that is there\<close>

text \<open>
  Claim C1. When the key is already in a dictionary, the register method of that
  dictionary raises \<^verbatim>\<open>AlreadyExistsException\<close>; the three dictionaries are what they
  were, the only call made is the one to the logger, and a \<^verbatim>\<open>get\<close> of the key afterwards
  returns what was registered first (for a store, the instance rebuilt from the reference
  that was stored first).
\<close>

theorem register_existing_key_raises:
  "(map_of (providers (service w)) k = Some v \<longrightarrow>
      (let r = register_provider k p w in
       fst r = Inl (AlreadyExistsException (''Provider `'' @ k @ ''` already exists!'')) \<and>
       service (snd r) = service w \<and>
       effects (snd r) = effects w @ [Logger_info k] \<and>
       fst (get_provider k (snd r)) = Inr v)) \<and>
   (map_of (artifact_store_map (service w)) k = Some t \<longrightarrow>
      (let r = register_artifact_store k c w in
       fst r = Inl (AlreadyExistsException (''Artifact Store `'' @ k @ ''` already exists!'')) \<and>
       service (snd r) = service w \<and>
       effects (snd r) = effects w @ [Logger_info k] \<and>
       fst (get_artifact_store k (snd r)) = Inr (component_of t))) \<and>
   (map_of (metadata_store_map (service w)) k = Some t' \<longrightarrow>
      (let r = register_metadata_store k c' w in
       fst r = Inl (AlreadyExistsException (''Artifact Store `'' @ k @ ''` already exists!'')) \<and>
       service (snd r) = service w \<and>
       effects (snd r) = effects w @ [Logger_info k] \<and>
       fst (get_metadata_store k (snd r)) = Inr (component_of t')))"
  by (simp add: register_provider_def register_artifact_store_def register_metadata_store_def
      get_provider_def get_artifact_store_def get_metadata_store_def Let_def
      contains_Some getitem_Some get_component_Some)

text \<open>
  The spec's example: \<open>store1\<close> is registered, and a second registration under \<open>store1\<close>
  with another component raises; \<^verbatim>\<open>get\<close> still gives the first component.
\<close>

theorem register_existing_key_raises_witness:
  "map_of (providers (service store1_world)) ''store1'' = Some ''local'' \<and>
   map_of (artifact_store_map (service store1_world)) ''store1'' =
     Some \<lparr>uuid = 1,
       source = ''zenml.artifact_stores.local_artifact_store.LocalArtifactStore''\<rparr> \<and>
   map_of (metadata_store_map (service store1_world)) ''store1'' =
     Some \<lparr>uuid = 3,
       source = ''zenml.metadata.sqlite_metadata_wrapper.SQLiteMetadataStore''\<rparr> \<and>
   fst (register_provider ''store1'' ''remote'' store1_world) =
     Inl (AlreadyExistsException ''Provider `store1` already exists!'') \<and>
   fst (get_provider ''store1'' (snd (register_provider ''store1'' ''remote'' store1_world))) =
     Inr ''local'' \<and>
   fst (register_artifact_store ''store1'' artifact_store_B store1_world) =
     Inl (AlreadyExistsException ''Artifact Store `store1` already exists!'') \<and>
   fst (get_artifact_store ''store1''
          (snd (register_artifact_store ''store1'' artifact_store_B store1_world))) =
     Inr artifact_store_A \<and>
   fst (register_metadata_store ''store1'' artifact_store_B store1_world) =
     Inl (AlreadyExistsException ''Artifact Store `store1` already exists!'') \<and>
   fst (get_metadata_store ''store1''
          (snd (register_metadata_store ''store1'' artifact_store_B store1_world))) =
     Inr metadata_store_M"
proof -
  have h1: "map_of (providers (service store1_world)) ''store1'' = Some ''local''"
    by (simp add: store1_world_service)
  have h2: "map_of (artifact_store_map (service store1_world)) ''store1'' =
     Some \<lparr>uuid = 1,
       source = ''zenml.artifact_stores.local_artifact_store.LocalArtifactStore''\<rparr>"
    by (simp add: store1_world_service)
  have h3: "map_of (metadata_store_map (service store1_world)) ''store1'' =
     Some \<lparr>uuid = 3,
       source = ''zenml.metadata.sqlite_metadata_wrapper.SQLiteMetadataStore''\<rparr>"
    by (simp add: store1_world_service)
  show ?thesis
    using h1 h2 h3
      register_existing_key_raises [of store1_world "''store1''" "''local''" "''remote''"
        "\<lparr>uuid = 1,
          source = ''zenml.artifact_stores.local_artifact_store.LocalArtifactStore''\<rparr>"
        artifact_store_B
        "\<lparr>uuid = 3,
          source = ''zenml.metadata.sqlite_metadata_wrapper.SQLiteMetadataStore''\<rparr>"
        artifact_store_B]
    by (simp add: Let_def component_of_def artifact_store_A_def metadata_store_M_def)
qed

subsection \<open>Reading or deleting a key that is not there\<close>

text \<open>
  Claim C2. When the key is in none of the entries of a dictionary, the \<^verbatim>\<open>get\<close> method and
  the \<^verbatim>\<open>delete\<close> method of that dictionary raise \<^verbatim>\<open>DoesNotExistException\<close>, and the
  exception is built from the key that was asked for and the keys the dictionary has at
  that moment. No value is returned in place of the missing one.
\<close>

theorem absent_key_does_not_exist:
  "(\<not> contains k (providers (service w)) \<longrightarrow>
      fst (get_provider k w) = Inl (DoesNotExistException k (keys (providers (service w)))) \<and>
      fst (delete_provider k w) = Inl (DoesNotExistException k (keys (providers (service w))))) \<and>
   (\<not> contains k (artifact_store_map (service w)) \<longrightarrow>
      fst (get_artifact_store k w) =
        Inl (DoesNotExistException k (keys (artifact_store_map (service w)))) \<and>
      fst (delete_artifact_store k w) =
        Inl (DoesNotExistException k (keys (artifact_store_map (service w))))) \<and>
   (\<not> contains k (metadata_store_map (service w)) \<longrightarrow>
      fst (get_metadata_store k w) =
        Inl (DoesNotExistException k (keys (metadata_store_map (service w)))) \<and>
      fst (delete_metadata_store k w) =
        Inl (DoesNotExistException k (keys (metadata_store_map (service w)))))"
  by (simp add: get_provider_def delete_provider_def get_artifact_store_def
      delete_artifact_store_def get_metadata_store_def delete_metadata_store_def Let_def)

theorem absent_key_does_not_exist_witness:
  "\<not> contains ''nope'' (providers (service store1_world)) \<and>
   \<not> contains ''nope'' (artifact_store_map (service store1_world)) \<and>
   \<not> contains ''nope'' (metadata_store_map (service store1_world)) \<and>
   fst (get_provider ''nope'' store1_world) = Inl (DoesNotExistException ''nope'' [''store1'']) \<and>
   fst (delete_provider ''nope'' store1_world) =
     Inl (DoesNotExistException ''nope'' [''store1'']) \<and>
   fst (get_artifact_store ''nope'' store1_world) =
     Inl (DoesNotExistException ''nope'' [''store1'']) \<and>
   fst (delete_artifact_store ''nope'' store1_world) =
     Inl (DoesNotExistException ''nope'' [''store1'']) \<and>
   fst (get_metadata_store ''nope'' store1_world) =
     Inl (DoesNotExistException ''nope'' [''store1'']) \<and>
   fst (delete_metadata_store ''nope'' store1_world) =
     Inl (DoesNotExistException ''nope'' [''store1''])"
proof -
  have h1: "\<not> contains ''nope'' (providers (service store1_world))"
    by (simp add: store1_world_service contains_def keys_def)
  have h2: "\<not> contains ''nope'' (artifact_store_map (service store1_world))"
    by (simp add: store1_world_service contains_def keys_def)
  have h3: "\<not> contains ''nope'' (metadata_store_map (service store1_world))"
    by (simp add: store1_world_service contains_def keys_def)
  have ks: "keys (providers (service store1_world)) = [''store1'']"
    "keys (artifact_store_map (service store1_world)) = [''store1'']"
    "keys (metadata_store_map (service store1_world)) = [''store1'']"
    by (simp_all add: store1_world_service keys_def)
  show ?thesis
    using h1 h2 h3 absent_key_does_not_exist [of "''nope''" store1_world]
    by (simp add: ks)
qed

subsection \<open>Registering a fresh key\<close>

text \<open>
  Claim C3. When the key is not in a dictionary, the register method of that dictionary
  succeeds, and a \<^verbatim>\<open>get\<close> of the key afterwards returns the provider that was registered,
  or, for a store, the instance rebuilt from the reference that was stored: the uuid of
  the component and the source locator of its class. That instance has the uuid and the
  source locator of the component that was registered.
\<close>

theorem register_then_get:
  "(\<not> contains k (providers (service w)) \<longrightarrow>
      fst (register_provider k v w) = Inr () \<and>
      fst (get_provider k (snd (register_provider k v w))) = Inr v) \<and>
   (\<not> contains k (artifact_store_map (service w)) \<longrightarrow>
      fst (register_artifact_store k c w) = Inr () \<and>
      fst (get_artifact_store k (snd (register_artifact_store k c w))) =
        Inr (component_of \<lparr>uuid = component_uuid c, source = component_source c\<rparr>) \<and>
      component_uuid (component_of \<lparr>uuid = component_uuid c, source = component_source c\<rparr>) =
        component_uuid c \<and>
      component_source (component_of \<lparr>uuid = component_uuid c, source = component_source c\<rparr>) =
        component_source c) \<and>
   (\<not> contains k (metadata_store_map (service w)) \<longrightarrow>
      fst (register_metadata_store k c' w) = Inr () \<and>
      fst (get_metadata_store k (snd (register_metadata_store k c' w))) =
        Inr (component_of \<lparr>uuid = component_uuid c', source = component_source c'\<rparr>) \<and>
      component_uuid (component_of \<lparr>uuid = component_uuid c', source = component_source c'\<rparr>) =
        component_uuid c' \<and>
      component_source (component_of \<lparr>uuid = component_uuid c', source = component_source c'\<rparr>) =
        component_source c')"
  by (simp add: register_provider_def register_artifact_store_def register_metadata_store_def
      get_provider_def get_artifact_store_def get_metadata_store_def Let_def
      contains_setitem map_of_setitem getitem_def get_component_from_key_def component_of_def)

theorem register_then_get_witness:
  "\<not> contains ''store1'' (providers (service (new_world :: string world))) \<and>
   \<not> contains ''store1'' (artifact_store_map (service (new_world :: string world))) \<and>
   \<not> contains ''store1'' (metadata_store_map (service (new_world :: string world))) \<and>
   fst (register_provider ''store1'' ''local'' new_world) = Inr () \<and>
   fst (get_provider ''store1'' (snd (register_provider ''store1'' ''local'' new_world))) =
     Inr ''local'' \<and>
   fst (register_artifact_store ''store1'' artifact_store_A (new_world :: string world)) =
     Inr () \<and>
   fst (get_artifact_store ''store1''
          (snd (register_artifact_store ''store1'' artifact_store_A
                 (new_world :: string world)))) = Inr artifact_store_A \<and>
   fst (register_metadata_store ''store1'' metadata_store_M (new_world :: string world)) =
     Inr () \<and>
   fst (get_metadata_store ''store1''
          (snd (register_metadata_store ''store1'' metadata_store_M
                 (new_world :: string world)))) = Inr metadata_store_M"
proof -
  have h1: "\<not> contains ''store1'' (providers (service (new_world :: string world)))"
    by (simp add: new_world_service contains_def keys_def)
  have h2: "\<not> contains ''store1'' (artifact_store_map (service (new_world :: string world)))"
    by (simp add: new_world_service contains_def keys_def)
  have h3: "\<not> contains ''store1'' (metadata_store_map (service (new_world :: string world)))"
    by (simp add: new_world_service contains_def keys_def)
  show ?thesis
    using h1 h2 h3
      register_then_get [of "''store1''" "new_world :: string world" "''local''"
        artifact_store_A metadata_store_M]
    by simp
qed

subsection \<open>Deleting twice\<close>

lemma delete_provider_ok:
  "fst (delete_provider k w) = Inr () \<Longrightarrow>
   providers (service (snd (delete_provider k w))) = AList.delete k (providers (service w))"
  by (auto simp: delete_provider_def get_provider_def delitem_def Let_def getitem_def
      split: if_splits option.splits)

lemma delete_artifact_store_ok:
  "fst (delete_artifact_store k w) = Inr () \<Longrightarrow>
   artifact_store_map (service (snd (delete_artifact_store k w))) =
     AList.delete k (artifact_store_map (service w))"
  by (auto simp: delete_artifact_store_def get_artifact_store_def delitem_def Let_def
      get_component_from_key_def getitem_def split: if_splits option.splits)

lemma delete_metadata_store_ok:
  "fst (delete_metadata_store k w) = Inr () \<Longrightarrow>
   metadata_store_map (service (snd (delete_metadata_store k w))) =
     AList.delete k (metadata_store_map (service w))"
  by (auto simp: delete_metadata_store_def get_metadata_store_def delitem_def Let_def
      get_component_from_key_def getitem_def split: if_splits option.splits)

lemma get_provider_absent:
  "\<not> contains k (providers (service w)) \<Longrightarrow>
   fst (get_provider k w) = Inl (DoesNotExistException k (keys (providers (service w))))"
  by (simp add: get_provider_def Let_def)

lemma get_artifact_store_absent:
  "\<not> contains k (artifact_store_map (service w)) \<Longrightarrow>
   fst (get_artifact_store k w) =
     Inl (DoesNotExistException k (keys (artifact_store_map (service w))))"
  by (simp add: get_artifact_store_def Let_def)

lemma get_metadata_store_absent:
  "\<not> contains k (metadata_store_map (service w)) \<Longrightarrow>
   fst (get_metadata_store k w) =
     Inl (DoesNotExistException k (keys (metadata_store_map (service w))))"
  by (simp add: get_metadata_store_def Let_def)

lemma delete_provider_absent:
  "\<not> contains k (providers (service w)) \<Longrightarrow>
   fst (delete_provider k w) = Inl (DoesNotExistException k (keys (providers (service w))))"
  by (simp add: delete_provider_def get_provider_def Let_def)

lemma delete_artifact_store_absent:
  "\<not> contains k (artifact_store_map (service w)) \<Longrightarrow>
   fst (delete_artifact_store k w) =
     Inl (DoesNotExistException k (keys (artifact_store_map (service w))))"
  by (simp add: delete_artifact_store_def get_artifact_store_def Let_def)

lemma delete_metadata_store_absent:
  "\<not> contains k (metadata_store_map (service w)) \<Longrightarrow>
   fst (delete_metadata_store k w) =
     Inl (DoesNotExistException k (keys (metadata_store_map (service w))))"
  by (simp add: delete_metadata_store_def get_metadata_store_def Let_def)

text \<open>
  Claim C4. After a \<^verbatim>\<open>delete\<close> of a key has succeeded on a dictionary, a second
  \<^verbatim>\<open>delete\<close> of the same key on the same dictionary raises \<^verbatim>\<open>DoesNotExistException\<close>; it is
  the exception that \<^verbatim>\<open>get\<close>, which \<^verbatim>\<open>delete\<close> calls first, raises for that key.
\<close>

theorem second_delete_does_not_exist:
  "(fst (delete_provider k w) = Inr () \<longrightarrow>
      (let w' = snd (delete_provider k w) in
       fst (get_provider k w') =
         Inl (DoesNotExistException k (keys (providers (service w')))) \<and>
       fst (delete_provider k w') =
         Inl (DoesNotExistException k (keys (providers (service w')))))) \<and>
   (fst (delete_artifact_store k w) = Inr () \<longrightarrow>
      (let w' = snd (delete_artifact_store k w) in
       fst (get_artifact_store k w') =
         Inl (DoesNotExistException k (keys (artifact_store_map (service w')))) \<and>
       fst (delete_artifact_store k w') =
         Inl (DoesNotExistException k (keys (artifact_store_map (service w')))))) \<and>
   (fst (delete_metadata_store k w) = Inr () \<longrightarrow>
      (let w' = snd (delete_metadata_store k w) in
       fst (get_metadata_store k w') =
         Inl (DoesNotExistException k (keys (metadata_store_map (service w')))) \<and>
       fst (delete_metadata_store k w') =
         Inl (DoesNotExistException k (keys (metadata_store_map (service w'))))))"
proof (intro conjI impI)
  assume ok: "fst (delete_provider k w) = Inr ()"
  have "\<not> contains k (providers (service (snd (delete_provider k w))))"
    by (simp add: delete_provider_ok [OF ok] not_contains_delete)
  then show "let w' = snd (delete_provider k w) in
       fst (get_provider k w') =
         Inl (DoesNotExistException k (keys (providers (service w')))) \<and>
       fst (delete_provider k w') =
         Inl (DoesNotExistException k (keys (providers (service w'))))"
    by (simp add: Let_def delete_provider_absent get_provider_absent)
next
  assume ok: "fst (delete_artifact_store k w) = Inr ()"
  have "\<not> contains k (artifact_store_map (service (snd (delete_artifact_store k w))))"
    by (simp add: delete_artifact_store_ok [OF ok] not_contains_delete)
  then show "let w' = snd (delete_artifact_store k w) in
       fst (get_artifact_store k w') =
         Inl (DoesNotExistException k (keys (artifact_store_map (service w')))) \<and>
       fst (delete_artifact_store k w') =
         Inl (DoesNotExistException k (keys (artifact_store_map (service w'))))"
    by (simp add: Let_def delete_artifact_store_absent get_artifact_store_absent)
next
  assume ok: "fst (delete_metadata_store k w) = Inr ()"
  have "\<not> contains k (metadata_store_map (service (snd (delete_metadata_store k w))))"
    by (simp add: delete_metadata_store_ok [OF ok] not_contains_delete)
  then show "let w' = snd (delete_metadata_store k w) in
       fst (get_metadata_store k w') =
         Inl (DoesNotExistException k (keys (metadata_store_map (service w')))) \<and>
       fst (delete_metadata_store k w') =
         Inl (DoesNotExistException k (keys (metadata_store_map (service w'))))"
    by (simp add: Let_def delete_metadata_store_absent get_metadata_store_absent)
qed

lemma store1_world_deletes:
  "fst (delete_provider ''store1'' store1_world) = Inr ()"
  "fst (delete_artifact_store ''store1'' store1_world) = Inr ()"
  "fst (delete_metadata_store ''store1'' store1_world) = Inr ()"
  "providers (service (snd (delete_provider ''store1'' store1_world))) = []"
  "artifact_store_map (service (snd (delete_artifact_store ''store1'' store1_world))) = []"
  "metadata_store_map (service (snd (delete_metadata_store ''store1'' store1_world))) = []"
  by (simp_all add: delete_provider_def delete_artifact_store_def delete_metadata_store_def
      get_provider_def get_artifact_store_def get_metadata_store_def Let_def
      store1_world_service contains_def keys_def getitem_def get_component_from_key_def
      delitem_def AList.delete_eq)

theorem second_delete_does_not_exist_witness:
  "fst (delete_provider ''store1'' store1_world) = Inr () \<and>
   fst (delete_artifact_store ''store1'' store1_world) = Inr () \<and>
   fst (delete_metadata_store ''store1'' store1_world) = Inr () \<and>
   fst (delete_provider ''store1'' (snd (delete_provider ''store1'' store1_world))) =
     Inl (DoesNotExistException ''store1'' []) \<and>
   fst (delete_artifact_store ''store1''
          (snd (delete_artifact_store ''store1'' store1_world))) =
     Inl (DoesNotExistException ''store1'' []) \<and>
   fst (delete_metadata_store ''store1''
          (snd (delete_metadata_store ''store1'' store1_world))) =
     Inl (DoesNotExistException ''store1'' [])"
  using second_delete_does_not_exist [of "''store1''" store1_world]
  by (simp add: Let_def store1_world_deletes keys_def)

subsection \<open>Deleting the whole service\<close>

lemma delete_result:
  "fst (delete w) = Inr () \<and>
   service (snd (delete w)) = service w \<and>
   effects (snd (delete w)) =
     effects w
     @ map (\<lambda>(k, t). Component_delete (component_of t)) (metadata_store_map (service w))
     @ map (\<lambda>(k, t). Component_delete (component_of t)) (artifact_store_map (service w))
     @ [Service_delete]"
  by (simp add: delete_def Let_def metadata_stores_def artifact_stores_def values_of_def
      get_components_from_store_def split_def comp_def)



text \<open>
  Claim C6. Deleting the whole service calls \<^verbatim>\<open>delete()\<close> on the instance of every
  metadata store reference, then on the instance of every artifact store reference, then
  \<^verbatim>\<open>delete()\<close> of the service itself, and nothing else; what \<^verbatim>\<open>orchestrator_map\<close> holds
  changes none of the calls.
\<close>

theorem delete_all_order:
  "fst (delete w) = Inr () \<and>
   effects (snd (delete w)) =
     effects w
     @ map (\<lambda>(k, t). Component_delete (component_of t)) (metadata_store_map (service w))
     @ map (\<lambda>(k, t). Component_delete (component_of t)) (artifact_store_map (service w))
     @ [Service_delete] \<and>
   effects (snd (delete (w\<lparr>service := (service w)\<lparr>orchestrator_map := om\<rparr>\<rparr>))) =
     effects (snd (delete w))"
  by (simp add: delete_result)

subsection \<open>The order of the steps of delete and register\<close>

lemma env_nothing_raises:
  "register_provider_env nothing_raises k p w = register_provider k p w"
  "register_artifact_store_env nothing_raises k c w = register_artifact_store k c w"
  "register_metadata_store_env nothing_raises k c w = register_metadata_store k c w"
  "delete_provider_env nothing_raises k w = delete_provider k w"
  "delete_artifact_store_env nothing_raises k w = delete_artifact_store k w"
  "delete_metadata_store_env nothing_raises k w = delete_metadata_store k w"
  by (simp_all add: register_provider_env_def register_provider_def
      register_artifact_store_env_def register_artifact_store_def
      register_metadata_store_env_def register_metadata_store_def
      delete_provider_env_def delete_provider_def
      delete_artifact_store_env_def delete_artifact_store_def
      delete_metadata_store_env_def delete_metadata_store_def
      nothing_raises_def call_def update_env_def update_def Let_def
      split: prod.splits sum.splits)

lemma nothing_raises_None [simp]: "nothing_raises e = None"
  by (simp add: nothing_raises_def)

lemma component_calls_raise_simps [simp]:
  "component_calls_raise (Component_update c) = Some (CollaboratorError ''update'')"
  "component_calls_raise (Component_delete c) = Some (CollaboratorError ''delete'')"
  "component_calls_raise (Service_update s) = None"
  by (simp_all add: component_calls_raise_def)

lemma service_update_raises_simps [simp]:
  "service_update_raises (Component_update c) = None"
  "service_update_raises (Component_delete c) = None"
  "service_update_raises (Service_update s) = Some (CollaboratorError ''update'')"
  by (simp_all add: service_update_raises_def)

text \<open>
  Claim C7. For a key that is registered, \<^verbatim>\<open>delete\<close> on the artifact store or metadata
  store dictionary first calls \<^verbatim>\<open>delete()\<close> of the component rebuilt from the reference:
  when that call raises, the key is still in the dictionary and nothing is persisted.
  Then it removes the key: when \<^verbatim>\<open>update()\<close> of the service raises, the key is already
  gone. Then it calls \<^verbatim>\<open>update()\<close> of the service, which serialises the dictionary
  without the key. \<^verbatim>\<open>delete\<close> on the providers removes the entry and calls \<^verbatim>\<open>update()\<close> of
  the service; it makes no call on the provider, whatever the components' calls do.
\<close>

theorem delete_by_key_order:
  "(map_of (artifact_store_map (service w)) k = Some t \<longrightarrow>
      (let r = delete_artifact_store_env raising k w;
           c = component_of t;
           s' = (service w)\<lparr>artifact_store_map := AList.delete k (artifact_store_map (service w))\<rparr>
       in \<not> contains k (artifact_store_map s') \<and>
          (raising (Component_delete c) = Some e \<longrightarrow>
             fst r = Inl e \<and> service (snd r) = service w \<and>
             contains k (artifact_store_map (service (snd r))) \<and>
             effects (snd r) = effects w @ [Logger_debug k]) \<and>
          (raising (Component_delete c) = None \<and> raising (Service_update s') = Some e \<longrightarrow>
             fst r = Inl e \<and> service (snd r) = s' \<and>
             effects (snd r) = effects w @ [Logger_debug k, Component_delete c]) \<and>
          (raising (Component_delete c) = None \<and> raising (Service_update s') = None \<longrightarrow>
             fst r = Inr () \<and> service (snd r) = s' \<and>
             effects (snd r) =
               effects w @ [Logger_debug k, Component_delete c, Service_update s',
                            Logger_info k]))) \<and>
   (map_of (metadata_store_map (service w)) k = Some t' \<longrightarrow>
      (let r = delete_metadata_store_env raising k w;
           c = component_of t';
           s' = (service w)\<lparr>metadata_store_map := AList.delete k (metadata_store_map (service w))\<rparr>
       in \<not> contains k (metadata_store_map s') \<and>
          (raising (Component_delete c) = Some e \<longrightarrow>
             fst r = Inl e \<and> service (snd r) = service w \<and>
             contains k (metadata_store_map (service (snd r))) \<and>
             effects (snd r) = effects w @ [Logger_debug k]) \<and>
          (raising (Component_delete c) = None \<and> raising (Service_update s') = Some e \<longrightarrow>
             fst r = Inl e \<and> service (snd r) = s' \<and>
             effects (snd r) = effects w @ [Logger_debug k, Component_delete c]) \<and>
          (raising (Component_delete c) = None \<and> raising (Service_update s') = None \<longrightarrow>
             fst r = Inr () \<and> service (snd r) = s' \<and>
             effects (snd r) =
               effects w @ [Logger_debug k, Component_delete c, Service_update s',
                            Logger_info k]))) \<and>
   (map_of (providers (service w)) k = Some p \<longrightarrow>
      (let r = delete_provider_env raising k w;
           s' = (service w)\<lparr>providers := AList.delete k (providers (service w))\<rparr>
       in \<not> contains k (providers s') \<and>
          (raising (Service_update s') = Some e \<longrightarrow>
             fst r = Inl e \<and> service (snd r) = s' \<and>
             effects (snd r) = effects w @ [Logger_debug k]) \<and>
          (raising (Service_update s') = None \<longrightarrow>
             fst r = Inr () \<and> service (snd r) = s' \<and>
             effects (snd r) = effects w @ [Logger_debug k, Service_update s', Logger_info k]))) \<and>
   delete_artifact_store_env nothing_raises k w = delete_artifact_store k w \<and>
   delete_metadata_store_env nothing_raises k w = delete_metadata_store k w \<and>
   delete_provider_env nothing_raises k w = delete_provider k w"
proof (intro conjI)
  show "delete_artifact_store_env nothing_raises k w = delete_artifact_store k w"
    "delete_metadata_store_env nothing_raises k w = delete_metadata_store k w"
    "delete_provider_env nothing_raises k w = delete_provider k w"
    by (simp_all add: env_nothing_raises)
qed (simp_all add: delete_artifact_store_env_def delete_metadata_store_env_def
      delete_provider_env_def get_artifact_store_def get_metadata_store_def get_provider_def
      call_def update_env_def Let_def delitem_def contains_Some getitem_Some
      get_component_Some not_contains_delete)

text \<open>
  The three deletions of \<open>store1\<close>, run three times: with no call raising, with the
  components' calls raising, and with \<^verbatim>\<open>update()\<close> of the service raising.
\<close>

theorem delete_by_key_order_witness:
  "map_of (artifact_store_map (service store1_world)) ''store1'' =
     Some \<lparr>uuid = 1,
       source = ''zenml.artifact_stores.local_artifact_store.LocalArtifactStore''\<rparr> \<and>
   map_of (metadata_store_map (service store1_world)) ''store1'' =
     Some \<lparr>uuid = 3,
       source = ''zenml.metadata.sqlite_metadata_wrapper.SQLiteMetadataStore''\<rparr> \<and>
   map_of (providers (service store1_world)) ''store1'' = Some ''local'' \<and>
   effects (snd (delete_artifact_store_env nothing_raises ''store1'' store1_world)) =
     effects store1_world @
       [Logger_debug ''store1'', Component_delete artifact_store_A,
        Service_update ((service store1_world)\<lparr>artifact_store_map := []\<rparr>),
        Logger_info ''store1''] \<and>
   effects (snd (delete_metadata_store_env nothing_raises ''store1'' store1_world)) =
     effects store1_world @
       [Logger_debug ''store1'', Component_delete metadata_store_M,
        Service_update ((service store1_world)\<lparr>metadata_store_map := []\<rparr>),
        Logger_info ''store1''] \<and>
   effects (snd (delete_provider_env nothing_raises ''store1'' store1_world)) =
     effects store1_world @
       [Logger_debug ''store1'',
        Service_update ((service store1_world)\<lparr>providers := []\<rparr>),
        Logger_info ''store1''] \<and>
   fst (delete_artifact_store_env component_calls_raise ''store1'' store1_world) =
     Inl (CollaboratorError ''delete'') \<and>
   contains ''store1'' (artifact_store_map (service
     (snd (delete_artifact_store_env component_calls_raise ''store1'' store1_world)))) \<and>
   effects (snd (delete_artifact_store_env component_calls_raise ''store1'' store1_world)) =
     effects store1_world @ [Logger_debug ''store1''] \<and>
   fst (delete_metadata_store_env component_calls_raise ''store1'' store1_world) =
     Inl (CollaboratorError ''delete'') \<and>
   contains ''store1'' (metadata_store_map (service
     (snd (delete_metadata_store_env component_calls_raise ''store1'' store1_world)))) \<and>
   fst (delete_provider_env component_calls_raise ''store1'' store1_world) = Inr () \<and>
   fst (delete_artifact_store_env service_update_raises ''store1'' store1_world) =
     Inl (CollaboratorError ''update'') \<and>
   artifact_store_map (service
     (snd (delete_artifact_store_env service_update_raises ''store1'' store1_world))) = [] \<and>
   effects (snd (delete_artifact_store_env service_update_raises ''store1'' store1_world)) =
     effects store1_world @ [Logger_debug ''store1'', Component_delete artifact_store_A] \<and>
   fst (delete_metadata_store_env service_update_raises ''store1'' store1_world) =
     Inl (CollaboratorError ''update'') \<and>
   metadata_store_map (service
     (snd (delete_metadata_store_env service_update_raises ''store1'' store1_world))) = [] \<and>
   fst (delete_provider_env service_update_raises ''store1'' store1_world) =
     Inl (CollaboratorError ''update'') \<and>
   providers (service
     (snd (delete_provider_env service_update_raises ''store1'' store1_world))) = []"
proof -
  let ?tA = "\<lparr>uuid = 1,
      source = ''zenml.artifact_stores.local_artifact_store.LocalArtifactStore''\<rparr>"
  let ?tM = "\<lparr>uuid = 3,
      source = ''zenml.metadata.sqlite_metadata_wrapper.SQLiteMetadataStore''\<rparr>"
  have h1: "map_of (artifact_store_map (service store1_world)) ''store1'' = Some ?tA"
    by (simp add: store1_world_service)
  have h2: "map_of (metadata_store_map (service store1_world)) ''store1'' = Some ?tM"
    by (simp add: store1_world_service)
  have h3: "map_of (providers (service store1_world)) ''store1'' = Some ''local''"
    by (simp add: store1_world_service)
  have d: "AList.delete ''store1'' (artifact_store_map (service store1_world)) = []"
    "AList.delete ''store1'' (metadata_store_map (service store1_world)) = []"
    "AList.delete ''store1'' (providers (service store1_world)) = []"
    by (simp_all add: store1_world_service AList.delete_eq)
  have here: "contains ''store1'' (artifact_store_map (service store1_world))"
    "contains ''store1'' (metadata_store_map (service store1_world))"
    by (simp_all add: store1_world_service contains_def keys_def)
  note ev = Let_def d here component_of_def artifact_store_A_def metadata_store_M_def
  note quiet = delete_by_key_order [where w = store1_world and k = "''store1''"
      and t = ?tA and t' = ?tM and p = "''local''"
      and raising = nothing_raises and e = "CollaboratorError ''delete''"]
  note comp = delete_by_key_order [where w = store1_world and k = "''store1''"
      and t = ?tA and t' = ?tM and p = "''local''"
      and raising = component_calls_raise and e = "CollaboratorError ''delete''"]
  note pers = delete_by_key_order [where w = store1_world and k = "''store1''"
      and t = ?tA and t' = ?tM and p = "''local''"
      and raising = service_update_raises and e = "CollaboratorError ''update''"]
  have q: "effects (snd (delete_artifact_store_env nothing_raises ''store1'' store1_world)) =
     effects store1_world @
       [Logger_debug ''store1'', Component_delete artifact_store_A,
        Service_update ((service store1_world)\<lparr>artifact_store_map := []\<rparr>),
        Logger_info ''store1'']"
    "effects (snd (delete_metadata_store_env nothing_raises ''store1'' store1_world)) =
     effects store1_world @
       [Logger_debug ''store1'', Component_delete metadata_store_M,
        Service_update ((service store1_world)\<lparr>metadata_store_map := []\<rparr>),
        Logger_info ''store1'']"
    "effects (snd (delete_provider_env nothing_raises ''store1'' store1_world)) =
     effects store1_world @
       [Logger_debug ''store1'',
        Service_update ((service store1_world)\<lparr>providers := []\<rparr>),
        Logger_info ''store1'']"
    using quiet [THEN conjunct1, THEN mp, OF h1]
      quiet [THEN conjunct2, THEN conjunct1, THEN mp, OF h2]
      quiet [THEN conjunct2, THEN conjunct2, THEN conjunct1, THEN mp, OF h3]
    by (simp_all add: ev)
  have c: "fst (delete_artifact_store_env component_calls_raise ''store1'' store1_world) =
     Inl (CollaboratorError ''delete'')"
    "contains ''store1'' (artifact_store_map (service
       (snd (delete_artifact_store_env component_calls_raise ''store1'' store1_world))))"
    "effects (snd (delete_artifact_store_env component_calls_raise ''store1'' store1_world)) =
       effects store1_world @ [Logger_debug ''store1'']"
    "fst (delete_metadata_store_env component_calls_raise ''store1'' store1_world) =
     Inl (CollaboratorError ''delete'')"
    "contains ''store1'' (metadata_store_map (service
       (snd (delete_metadata_store_env component_calls_raise ''store1'' store1_world))))"
    "fst (delete_provider_env component_calls_raise ''store1'' store1_world) = Inr ()"
    using comp [THEN conjunct1, THEN mp, OF h1]
      comp [THEN conjunct2, THEN conjunct1, THEN mp, OF h2]
      comp [THEN conjunct2, THEN conjunct2, THEN conjunct1, THEN mp, OF h3]
    by (simp_all add: ev)
  have p: "fst (delete_artifact_store_env service_update_raises ''store1'' store1_world) =
     Inl (CollaboratorError ''update'')"
    "artifact_store_map (service
       (snd (delete_artifact_store_env service_update_raises ''store1'' store1_world))) = []"
    "effects (snd (delete_artifact_store_env service_update_raises ''store1'' store1_world)) =
       effects store1_world @ [Logger_debug ''store1'', Component_delete artifact_store_A]"
    "fst (delete_metadata_store_env service_update_raises ''store1'' store1_world) =
     Inl (CollaboratorError ''update'')"
    "metadata_store_map (service
       (snd (delete_metadata_store_env service_update_raises ''store1'' store1_world))) = []"
    "fst (delete_provider_env service_update_raises ''store1'' store1_world) =
     Inl (CollaboratorError ''update'')"
    "providers (service
       (snd (delete_provider_env service_update_raises ''store1'' store1_world))) = []"
    using pers [THEN conjunct1, THEN mp, OF h1]
      pers [THEN conjunct2, THEN conjunct1, THEN mp, OF h2]
      pers [THEN conjunct2, THEN conjunct2, THEN conjunct1, THEN mp, OF h3]
    by (simp_all add: ev)
  show ?thesis
    using h1 h2 h3 q c p by simp
qed

text \<open>
  Claim C8. For a key that is not registered, \<^verbatim>\<open>register\<close> on the artifact store or
  metadata store dictionary first calls \<^verbatim>\<open>update()\<close> of the component: when that call
  raises, nothing is put in the dictionary and nothing is persisted. Then it puts the
  pair of the component's uuid and the source locator of its class under the key: when
  \<^verbatim>\<open>update()\<close> of the service raises, the pair is already there. It ends with \<^verbatim>\<open>update()\<close>
  of the service, which serialises the dictionary with the new entry. \<^verbatim>\<open>register\<close> on
  the providers puts the provider itself under the key and ends with \<^verbatim>\<open>update()\<close> of the
  service.
\<close>

theorem register_order:
  "(\<not> contains k (artifact_store_map (service w)) \<longrightarrow>
      (let r = register_artifact_store_env raising k c w;
           s' = (service w)\<lparr>artifact_store_map := artifact_store_map (service w) @
                  [(k, \<lparr>uuid = component_uuid c, source = component_source c\<rparr>)]\<rparr>
       in (raising (Component_update c) = Some e \<longrightarrow>
             fst r = Inl e \<and> service (snd r) = service w \<and>
             effects (snd r) = effects w @ [Logger_info k]) \<and>
          (raising (Component_update c) = None \<and> raising (Service_update s') = Some e \<longrightarrow>
             fst r = Inl e \<and> service (snd r) = s' \<and>
             effects (snd r) = effects w @ [Logger_info k, Component_update c]) \<and>
          (raising (Component_update c) = None \<and> raising (Service_update s') = None \<longrightarrow>
             fst r = Inr () \<and> service (snd r) = s' \<and>
             effects (snd r) =
               effects w @ [Logger_info k, Component_update c, Service_update s']))) \<and>
   (\<not> contains k (metadata_store_map (service w)) \<longrightarrow>
      (let r = register_metadata_store_env raising k c' w;
           s' = (service w)\<lparr>metadata_store_map := metadata_store_map (service w) @
                  [(k, \<lparr>uuid = component_uuid c', source = component_source c'\<rparr>)]\<rparr>
       in (raising (Component_update c') = Some e \<longrightarrow>
             fst r = Inl e \<and> service (snd r) = service w \<and>
             effects (snd r) = effects w @ [Logger_info k]) \<and>
          (raising (Component_update c') = None \<and> raising (Service_update s') = Some e \<longrightarrow>
             fst r = Inl e \<and> service (snd r) = s' \<and>
             effects (snd r) = effects w @ [Logger_info k, Component_update c']) \<and>
          (raising (Component_update c') = None \<and> raising (Service_update s') = None \<longrightarrow>
             fst r = Inr () \<and> service (snd r) = s' \<and>
             effects (snd r) =
               effects w @ [Logger_info k, Component_update c', Service_update s']))) \<and>
   (\<not> contains k (providers (service w)) \<longrightarrow>
      (let r = register_provider_env raising k p w;
           s' = (service w)\<lparr>providers := providers (service w) @ [(k, p)]\<rparr>
       in (raising (Service_update s') = Some e \<longrightarrow>
             fst r = Inl e \<and> service (snd r) = s' \<and>
             effects (snd r) = effects w @ [Logger_info k]) \<and>
          (raising (Service_update s') = None \<longrightarrow>
             fst r = Inr () \<and> service (snd r) = s' \<and>
             effects (snd r) = effects w @ [Logger_info k, Service_update s']))) \<and>
   register_artifact_store_env nothing_raises k c w = register_artifact_store k c w \<and>
   register_metadata_store_env nothing_raises k c' w = register_metadata_store k c' w \<and>
   register_provider_env nothing_raises k p w = register_provider k p w"
proof (intro conjI)
  show "register_artifact_store_env nothing_raises k c w = register_artifact_store k c w"
    "register_metadata_store_env nothing_raises k c' w = register_metadata_store k c' w"
    "register_provider_env nothing_raises k p w = register_provider k p w"
    by (simp_all add: env_nothing_raises)
qed (simp_all add: register_artifact_store_env_def register_metadata_store_env_def
      register_provider_env_def call_def update_env_def Let_def setitem_fresh)

text \<open>
  The three registrations of \<open>a1\<close>, run three times: with no call raising, with the
  components' calls raising, and with \<^verbatim>\<open>update()\<close> of the service raising.
\<close>

theorem register_order_witness:
  "\<not> contains ''a1'' (artifact_store_map (service store1_world)) \<and>
   \<not> contains ''a1'' (metadata_store_map (service store1_world)) \<and>
   \<not> contains ''a1'' (providers (service store1_world)) \<and>
   effects (snd (register_artifact_store_env nothing_raises ''a1'' artifact_store_B
                   store1_world)) =
     effects store1_world @
       [Logger_info ''a1'', Component_update artifact_store_B,
        Service_update ((service store1_world)\<lparr>artifact_store_map :=
          artifact_store_map (service store1_world) @
            [(''a1'', \<lparr>uuid = 2,
               source = ''zenml.artifact_stores.gcp_artifact_store.GCPArtifactStore''\<rparr>)]\<rparr>)] \<and>
   effects (snd (register_metadata_store_env nothing_raises ''a1'' metadata_store_M
                   store1_world)) =
     effects store1_world @
       [Logger_info ''a1'', Component_update metadata_store_M,
        Service_update ((service store1_world)\<lparr>metadata_store_map :=
          metadata_store_map (service store1_world) @
            [(''a1'', \<lparr>uuid = 3,
               source = ''zenml.metadata.sqlite_metadata_wrapper.SQLiteMetadataStore''\<rparr>)]\<rparr>)] \<and>
   effects (snd (register_provider_env nothing_raises ''a1'' ''remote'' store1_world)) =
     effects store1_world @
       [Logger_info ''a1'',
        Service_update ((service store1_world)\<lparr>providers :=
          providers (service store1_world) @ [(''a1'', ''remote'')]\<rparr>)] \<and>
   fst (register_artifact_store_env component_calls_raise ''a1'' artifact_store_B
          store1_world) = Inl (CollaboratorError ''update'') \<and>
   service (snd (register_artifact_store_env component_calls_raise ''a1'' artifact_store_B
          store1_world)) = service store1_world \<and>
   effects (snd (register_artifact_store_env component_calls_raise ''a1'' artifact_store_B
          store1_world)) = effects store1_world @ [Logger_info ''a1''] \<and>
   fst (register_metadata_store_env component_calls_raise ''a1'' metadata_store_M
          store1_world) = Inl (CollaboratorError ''update'') \<and>
   service (snd (register_metadata_store_env component_calls_raise ''a1'' metadata_store_M
          store1_world)) = service store1_world \<and>
   fst (register_provider_env component_calls_raise ''a1'' ''remote'' store1_world) = Inr () \<and>
   fst (register_artifact_store_env service_update_raises ''a1'' artifact_store_B
          store1_world) = Inl (CollaboratorError ''update'') \<and>
   contains ''a1'' (artifact_store_map (service
     (snd (register_artifact_store_env service_update_raises ''a1'' artifact_store_B
          store1_world)))) \<and>
   effects (snd (register_artifact_store_env service_update_raises ''a1'' artifact_store_B
          store1_world)) =
     effects store1_world @ [Logger_info ''a1'', Component_update artifact_store_B] \<and>
   fst (register_metadata_store_env service_update_raises ''a1'' metadata_store_M
          store1_world) = Inl (CollaboratorError ''update'') \<and>
   contains ''a1'' (metadata_store_map (service
     (snd (register_metadata_store_env service_update_raises ''a1'' metadata_store_M
          store1_world)))) \<and>
   fst (register_provider_env service_update_raises ''a1'' ''remote'' store1_world) =
     Inl (CollaboratorError ''update'') \<and>
   contains ''a1'' (providers (service
     (snd (register_provider_env service_update_raises ''a1'' ''remote'' store1_world))))"
proof -
  have h1: "\<not> contains ''a1'' (artifact_store_map (service store1_world))"
    by (simp add: store1_world_service contains_def keys_def)
  have h2: "\<not> contains ''a1'' (metadata_store_map (service store1_world))"
    by (simp add: store1_world_service contains_def keys_def)
  have h3: "\<not> contains ''a1'' (providers (service store1_world))"
    by (simp add: store1_world_service contains_def keys_def)
  note ev = Let_def artifact_store_B_def metadata_store_M_def contains_def keys_def
  note quiet = register_order [where w = store1_world and k = "''a1''"
      and c = artifact_store_B and c' = metadata_store_M and p = "''remote''"
      and raising = nothing_raises and e = "CollaboratorError ''update''"]
  note comp = register_order [where w = store1_world and k = "''a1''"
      and c = artifact_store_B and c' = metadata_store_M and p = "''remote''"
      and raising = component_calls_raise and e = "CollaboratorError ''update''"]
  note pers = register_order [where w = store1_world and k = "''a1''"
      and c = artifact_store_B and c' = metadata_store_M and p = "''remote''"
      and raising = service_update_raises and e = "CollaboratorError ''update''"]
  have q: "effects (snd (register_artifact_store_env nothing_raises ''a1'' artifact_store_B
                   store1_world)) =
     effects store1_world @
       [Logger_info ''a1'', Component_update artifact_store_B,
        Service_update ((service store1_world)\<lparr>artifact_store_map :=
          artifact_store_map (service store1_world) @
            [(''a1'', \<lparr>uuid = 2,
               source = ''zenml.artifact_stores.gcp_artifact_store.GCPArtifactStore''\<rparr>)]\<rparr>)]"
    "effects (snd (register_metadata_store_env nothing_raises ''a1'' metadata_store_M
                   store1_world)) =
     effects store1_world @
       [Logger_info ''a1'', Component_update metadata_store_M,
        Service_update ((service store1_world)\<lparr>metadata_store_map :=
          metadata_store_map (service store1_world) @
            [(''a1'', \<lparr>uuid = 3,
               source = ''zenml.metadata.sqlite_metadata_wrapper.SQLiteMetadataStore''\<rparr>)]\<rparr>)]"
    "effects (snd (register_provider_env nothing_raises ''a1'' ''remote'' store1_world)) =
     effects store1_world @
       [Logger_info ''a1'',
        Service_update ((service store1_world)\<lparr>providers :=
          providers (service store1_world) @ [(''a1'', ''remote'')]\<rparr>)]"
    using quiet [THEN conjunct1, THEN mp, OF h1]
      quiet [THEN conjunct2, THEN conjunct1, THEN mp, OF h2]
      quiet [THEN conjunct2, THEN conjunct2, THEN conjunct1, THEN mp, OF h3]
    by (simp_all add: ev)
  have c: "fst (register_artifact_store_env component_calls_raise ''a1'' artifact_store_B
          store1_world) = Inl (CollaboratorError ''update'')"
    "service (snd (register_artifact_store_env component_calls_raise ''a1'' artifact_store_B
          store1_world)) = service store1_world"
    "effects (snd (register_artifact_store_env component_calls_raise ''a1'' artifact_store_B
          store1_world)) = effects store1_world @ [Logger_info ''a1'']"
    "fst (register_metadata_store_env component_calls_raise ''a1'' metadata_store_M
          store1_world) = Inl (CollaboratorError ''update'')"
    "service (snd (register_metadata_store_env component_calls_raise ''a1'' metadata_store_M
          store1_world)) = service store1_world"
    "fst (register_provider_env component_calls_raise ''a1'' ''remote'' store1_world) = Inr ()"
    using comp [THEN conjunct1, THEN mp, OF h1]
      comp [THEN conjunct2, THEN conjunct1, THEN mp, OF h2]
      comp [THEN conjunct2, THEN conjunct2, THEN conjunct1, THEN mp, OF h3]
    by (simp_all add: ev)
  have p: "fst (register_artifact_store_env service_update_raises ''a1'' artifact_store_B
          store1_world) = Inl (CollaboratorError ''update'')"
    "contains ''a1'' (artifact_store_map (service
       (snd (register_artifact_store_env service_update_raises ''a1'' artifact_store_B
          store1_world))))"
    "effects (snd (register_artifact_store_env service_update_raises ''a1'' artifact_store_B
          store1_world)) =
       effects store1_world @ [Logger_info ''a1'', Component_update artifact_store_B]"
    "fst (register_metadata_store_env service_update_raises ''a1'' metadata_store_M
          store1_world) = Inl (CollaboratorError ''update'')"
    "contains ''a1'' (metadata_store_map (service
       (snd (register_metadata_store_env service_update_raises ''a1'' metadata_store_M
          store1_world))))"
    "fst (register_provider_env service_update_raises ''a1'' ''remote'' store1_world) =
       Inl (CollaboratorError ''update'')"
    "contains ''a1'' (providers (service
       (snd (register_provider_env service_update_raises ''a1'' ''remote'' store1_world))))"
    using pers [THEN conjunct1, THEN mp, OF h1]
      pers [THEN conjunct2, THEN conjunct1, THEN mp, OF h2]
      pers [THEN conjunct2, THEN conjunct2, THEN conjunct1, THEN mp, OF h3]
    by (simp_all add: ev)
  show ?thesis
    using h1 h2 h3 q c p by simp
qed

subsection \<open>Three separate dictionaries\<close>

lemma register_provider_frame:
  "metadata_store_map (service (snd (register_provider k p w))) = metadata_store_map (service w) \<and>
   artifact_store_map (service (snd (register_provider k p w))) = artifact_store_map (service w)"
  by (simp add: register_provider_def Let_def)

lemma register_artifact_store_frame:
  "providers (service (snd (register_artifact_store k c w))) = providers (service w) \<and>
   metadata_store_map (service (snd (register_artifact_store k c w))) =
     metadata_store_map (service w)"
  by (simp add: register_artifact_store_def Let_def)

lemma register_metadata_store_frame:
  "providers (service (snd (register_metadata_store k c w))) = providers (service w) \<and>
   artifact_store_map (service (snd (register_metadata_store k c w))) =
     artifact_store_map (service w)"
  by (simp add: register_metadata_store_def Let_def)

lemma delete_provider_frame:
  "metadata_store_map (service (snd (delete_provider k w))) = metadata_store_map (service w) \<and>
   artifact_store_map (service (snd (delete_provider k w))) = artifact_store_map (service w)"
  by (simp add: delete_provider_def get_provider_def Let_def delitem_def getitem_def
      split: option.splits)

lemma delete_artifact_store_frame:
  "providers (service (snd (delete_artifact_store k w))) = providers (service w) \<and>
   metadata_store_map (service (snd (delete_artifact_store k w))) =
     metadata_store_map (service w)"
  by (simp add: delete_artifact_store_def get_artifact_store_def Let_def delitem_def
      get_component_from_key_def getitem_def split: option.splits)

lemma delete_metadata_store_frame:
  "providers (service (snd (delete_metadata_store k w))) = providers (service w) \<and>
   artifact_store_map (service (snd (delete_metadata_store k w))) =
     artifact_store_map (service w)"
  by (simp add: delete_metadata_store_def get_metadata_store_def Let_def delitem_def
      get_component_from_key_def getitem_def split: option.splits)

lemma register_succeeds_iff:
  "(fst (register_provider k p w) = Inr ()) = (\<not> contains k (providers (service w)))"
  "(fst (register_artifact_store k c w) = Inr ()) =
     (\<not> contains k (artifact_store_map (service w)))"
  "(fst (register_metadata_store k c' w) = Inr ()) =
     (\<not> contains k (metadata_store_map (service w)))"
  by (simp_all add: register_provider_def register_artifact_store_def
      register_metadata_store_def Let_def)

text \<open>
  Claim C9. Registering or deleting a key in one of the three dictionaries leaves the
  other two as they were, whether the call succeeds or raises. Whether a registration
  succeeds is decided by the dictionary it writes alone, so a key that is in one
  dictionary can be registered in another.
\<close>

theorem mappings_independent:
  "metadata_store_map (service (snd (register_provider k p w))) = metadata_store_map (service w) \<and>
   artifact_store_map (service (snd (register_provider k p w))) = artifact_store_map (service w) \<and>
   providers (service (snd (register_artifact_store k c w))) = providers (service w) \<and>
   metadata_store_map (service (snd (register_artifact_store k c w))) =
     metadata_store_map (service w) \<and>
   providers (service (snd (register_metadata_store k c' w))) = providers (service w) \<and>
   artifact_store_map (service (snd (register_metadata_store k c' w))) =
     artifact_store_map (service w) \<and>
   metadata_store_map (service (snd (delete_provider k w))) = metadata_store_map (service w) \<and>
   artifact_store_map (service (snd (delete_provider k w))) = artifact_store_map (service w) \<and>
   providers (service (snd (delete_artifact_store k w))) = providers (service w) \<and>
   metadata_store_map (service (snd (delete_artifact_store k w))) =
     metadata_store_map (service w) \<and>
   providers (service (snd (delete_metadata_store k w))) = providers (service w) \<and>
   artifact_store_map (service (snd (delete_metadata_store k w))) =
     artifact_store_map (service w) \<and>
   (fst (register_provider k p w) = Inr ()) = (\<not> contains k (providers (service w))) \<and>
   (fst (register_artifact_store k c w) = Inr ()) =
     (\<not> contains k (artifact_store_map (service w))) \<and>
   (fst (register_metadata_store k c' w) = Inr ()) =
     (\<not> contains k (metadata_store_map (service w)))"
  by (simp add: register_provider_frame register_artifact_store_frame
      register_metadata_store_frame delete_provider_frame delete_artifact_store_frame
      delete_metadata_store_frame register_succeeds_iff)

text \<open>
  The key \<open>store1\<close> is registered as a provider first; the registration of an artifact
  store under \<open>store1\<close> then succeeds and the provider is still there.
\<close>

theorem mappings_independent_witness:
  "contains ''store1''
     (providers (service (snd (register_provider ''store1'' ''local''
        (new_world :: string world))))) \<and>
   fst (register_artifact_store ''store1'' artifact_store_A
     (snd (register_provider ''store1'' ''local'' (new_world :: string world)))) = Inr () \<and>
   providers (service (snd (register_artifact_store ''store1'' artifact_store_A
     (snd (register_provider ''store1'' ''local'' (new_world :: string world)))))) =
     [(''store1'', ''local'')] \<and>
   contains ''store1'' (artifact_store_map (service (snd
     (register_artifact_store ''store1'' artifact_store_A
       (snd (register_provider ''store1'' ''local'' (new_world :: string world)))))))"
proof -
  let ?w1 = "snd (register_provider ''store1'' ''local'' (new_world :: string world))"
  have s1: "service ?w1 =
     \<lparr>providers = [(''store1'', ''local'')], metadata_store_map = [],
      artifact_store_map = [], orchestrator_map = []\<rparr>"
    by (simp add: register_provider_def Let_def new_world_service contains_def keys_def
        setitem_def)
  have fresh: "\<not> contains ''store1'' (artifact_store_map (service ?w1))"
    by (simp add: s1 contains_def keys_def)
  have here: "contains ''store1'' (providers (service ?w1))"
    by (simp add: s1 contains_def keys_def)
  have after: "contains ''store1'' (artifact_store_map (service (snd
     (register_artifact_store ''store1'' artifact_store_A ?w1))))"
    by (simp add: register_artifact_store_def Let_def fresh contains_setitem)
  show ?thesis
    using mappings_independent [of "''store1''" "''local''" ?w1 artifact_store_A
        metadata_store_M] fresh here after
    by (simp add: s1)
qed

subsection \<open>Reading\<close>

text \<open>
  Claim C10. Each of the three \<^verbatim>\<open>get\<close> methods, whether it returns or raises, leaves the
  dictionaries of the service as they were, and the only call it makes is the one to the
  logger: no \<^verbatim>\<open>update()\<close> of the service, so what is persisted is what was persisted.
\<close>

theorem get_is_pure_read:
  "service (snd (get_provider k w)) = service w \<and>
   effects (snd (get_provider k w)) = effects w @ [Logger_debug k] \<and>
   storage_after (effects (snd (get_provider k w))) st = storage_after (effects w) st \<and>
   service (snd (get_artifact_store k w)) = service w \<and>
   effects (snd (get_artifact_store k w)) = effects w @ [Logger_debug k] \<and>
   storage_after (effects (snd (get_artifact_store k w))) st = storage_after (effects w) st \<and>
   service (snd (get_metadata_store k w)) = service w \<and>
   effects (snd (get_metadata_store k w)) = effects w @ [Logger_debug k] \<and>
   storage_after (effects (snd (get_metadata_store k w))) st = storage_after (effects w) st"
  by (simp add: get_provider_def get_artifact_store_def get_metadata_store_def Let_def
      storage_after_snoc)

end
